theory Spec2Isabelle
  imports Main "HOL-Library.Sublist"
begin

section \<open>The chat session of App.tsx\<close>

text \<open>
  The component \<open>App\<close> of \<open>src/App.tsx\<close> keeps the conversation in React state and
  changes it through a handful of handlers. Each handler is embedded as a function from
  the state before the call to the state after it. What a handler reads from the browser
  (the clock, the window width, the identity of a newly built array) is an argument.
\<close>

subsection \<open>Data model\<close>

datatype MessageRole = user | assistant

text \<open>
  A \<open>Message\<close> as \<open>handleSendMessage\<close> builds it: \<open>id\<close>, \<open>role\<close>, \<open>content\<close>,
  \<open>timestamp\<close>. The timestamp is a \<open>Date\<close>, kept as its number of milliseconds.
\<close>

record Message =
  id_msg :: string
  role_msg :: MessageRole
  content :: string
  timestamp :: nat

text \<open>
  Modelled from the spec: the union \<open>UserRole\<close> is declared in \<open>src/types\<close>, which is
  not part of the source tree; its members are the roles the spec's data model lists.
  \<open>App.tsx\<close> itself names only \<open>'Operations'\<close> and \<open>'General AI'\<close>.
\<close>

datatype UserRole =
  Operations | Maintenance | ProjectManagement | SalesMarketing
  | Procurement | ErectionCommissioning | EngineeringDesign

text \<open>The type \<open>UserRole | 'General AI'\<close> of \<open>selectedRole\<close> and of \<open>handleRoleChange\<close>.\<close>

datatype SelectedRole = Expert UserRole | GeneralAI

text \<open>
  A JavaScript array of messages. React compares the dependencies of an effect with
  \<open>Object.is\<close>, so an array counts as changed when it is another object, whatever it
  holds: \<open>arrayRef\<close> is the identity of the array, \<open>elems\<close> what it holds. The handlers
  never write into an existing array; \<open>[...prev.messages, m]\<close> and \<open>[]\<close> build a new one.
\<close>

record MessageArray =
  arrayRef :: nat
  elems :: "Message list"

text \<open>The elements of \<open>uploadedFiles\<close> are never inspected by \<open>App.tsx\<close>.\<close>

type_synonym UploadedFile = string

record ChatState =
  messages :: MessageArray
  isLoading :: bool
  selectedRole :: SelectedRole
  uploadedFiles :: "UploadedFile list"

text \<open>The fields of a \<open>ChatHistory\<close> that \<open>handleLoadChat\<close> reads.\<close>

record ChatHistory =
  id_hist :: string
  messages_hist :: MessageArray
  role_hist :: SelectedRole

text \<open>The argument \<open>{messages, role}\<close> of \<open>saveChatHistory\<close>.\<close>

record SavePayload =
  messages_saved :: MessageArray
  role_saved :: SelectedRole

text \<open>
  Everything the render function of \<open>App\<close> closes over: the values of the two contexts
  (\<open>isAuthenticated\<close> of \<open>useAuth\<close>; \<open>currentChatId\<close>, written through
  \<open>setCurrentChatId\<close>, and the identity of the function \<open>saveChatHistory\<close> of
  \<open>useChatHistory\<close>) and the component's own \<open>useState\<close> cells.
\<close>

record App =
  isAuthenticated :: bool
  currentChatId :: "string option"
  saveChatHistory :: nat
  showLogin :: bool
  showAuth :: bool
  chatState :: ChatState
  error :: "string option"
  sidebarOpen :: bool
  showLogoutConfirm :: bool

text \<open>What one run of a handler reads from the browser.\<close>

record Env =
  now :: nat           \<comment> \<open>\<open>Date.now()\<close>\<close>
  date :: nat          \<comment> \<open>\<open>new Date()\<close>\<close>
  innerWidth :: nat    \<comment> \<open>\<open>window.innerWidth\<close>\<close>
  freshRef :: nat      \<comment> \<open>the identity of an array built in this run\<close>

subsection \<open>JavaScript helpers\<close>

text \<open>
  \<open>error\<close> is a \<open>string | null\<close>; \<open>if (error)\<close>, \<open>!!error\<close> and \<open>error && ...\<close> take
  \<open>null\<close> and the empty string as false.
\<close>

definition truthy :: "string option \<Rightarrow> bool" where
  "truthy e = (case e of None \<Rightarrow> False | Some s \<Rightarrow> s \<noteq> [])"

text \<open>\<open>String.prototype.includes\<close>: the argument occurs as a contiguous part.\<close>

fun includes_str :: "string \<Rightarrow> string \<Rightarrow> bool" where
  "includes_str [] sub = (sub = [])"
| "includes_str (c # cs) sub = (prefix sub (c # cs) \<or> includes_str cs sub)"

text \<open>
  \<open>Number.prototype.toString\<close> on a non-negative integer below \<open>10\<^sup>2\<^sup>1\<close>, as \<open>Date.now()\<close>
  and its successor are: the decimal digits.
\<close>

fun toString :: "nat \<Rightarrow> string" where
  "toString n =
     (if n < 10 then [char_of (48 + n)]
      else toString (n div 10) @ [char_of (48 + n mod 10)])"

declare toString.simps [simp del]

subsection \<open>Mounting\<close>

definition initialChatState :: "Env \<Rightarrow> ChatState" where
  "initialChatState env =
     \<lparr>messages = \<lparr>arrayRef = freshRef env, elems = []\<rparr>,
      isLoading = False,
      selectedRole = Expert Operations,
      uploadedFiles = []\<rparr>"

text \<open>The first render: the \<open>useState\<close> initialisers, around what the contexts provide.\<close>

definition initialApp :: "Env \<Rightarrow> bool \<Rightarrow> nat \<Rightarrow> App" where
  "initialApp env auth saveFn =
     \<lparr>isAuthenticated = auth,
      currentChatId = None,
      saveChatHistory = saveFn,
      showLogin = True,
      showAuth = False,
      chatState = initialChatState env,
      error = None,
      sidebarOpen = False,
      showLogoutConfirm = False\<rparr>"

text \<open>The effect on \<open>[isAuthenticated]\<close> (lines 41 to 46).\<close>

definition authEffect :: "App \<Rightarrow> App" where
  "authEffect st =
     (if isAuthenticated st then st\<lparr>showLogin := False, showAuth := False\<rparr> else st)"

definition apiKeyMessage :: string where
  "apiKeyMessage =
     ''GEMINI_API_KEY is not configured. Please set VITE_GEMINI_API_KEY in your environment variables.''"

text \<open>
  The effect run once on mount (lines 49 to 53); \<open>apiKey\<close> is
  \<open>import.meta.env.VITE_GEMINI_API_KEY\<close>, undefined or a string.
\<close>

definition apiKeyEffect :: "string option \<Rightarrow> App \<Rightarrow> App" where
  "apiKeyEffect apiKey st =
     (if \<not> truthy apiKey then st\<lparr>error := Some apiKeyMessage\<rparr> else st)"

definition mount :: "Env \<Rightarrow> string option \<Rightarrow> bool \<Rightarrow> nat \<Rightarrow> App" where
  "mount env apiKey auth saveFn = apiKeyEffect apiKey (authEffect (initialApp env auth saveFn))"

subsection \<open>Handlers\<close>

definition closeSidebarOnMobile :: "Env \<Rightarrow> App \<Rightarrow> App" where
  "closeSidebarOnMobile env st =
     (if innerWidth env < 768 then st\<lparr>sidebarOpen := False\<rparr> else st)"

definition handleLogin :: "App \<Rightarrow> App" where
  "handleLogin st = st\<lparr>showLogin := False, showAuth := True\<rparr>"

definition handleGuestAccess :: "App \<Rightarrow> App" where
  "handleGuestAccess st = st\<lparr>showLogin := False, showAuth := False\<rparr>"

definition handleAuthComplete :: "App \<Rightarrow> App" where
  "handleAuthComplete st = st\<lparr>showAuth := False\<rparr>"

text \<open>
  \<open>handleLogout\<close>. Its first statement, \<open>logout()\<close>, belongs to the authentication
  context; what it does to \<open>isAuthenticated\<close> reaches \<open>App\<close> as a change of the context
  value (the event \<open>AuthChanged\<close> below).
\<close>

definition handleLogout :: "Env \<Rightarrow> App \<Rightarrow> App" where
  "handleLogout env st =
     st\<lparr>chatState := initialChatState env,
        currentChatId := None,
        showLogoutConfirm := False,
        showLogin := True,
        sidebarOpen := False\<rparr>"

text \<open>A call \<open>generateResponse(content, chatState.selectedRole)\<close>.\<close>

type_synonym GenerateCall = "string \<times> SelectedRole"

text \<open>
  \<open>handleSendMessage\<close> up to its \<open>await\<close>: the state it leaves and the call to the
  responder it has issued, if any.
\<close>

definition handleSendMessage :: "Env \<Rightarrow> string \<Rightarrow> App \<Rightarrow> App \<times> GenerateCall option" where
  "handleSendMessage env text st =
     (if truthy (error st) then (st, None)
      else
        let userMessage =
              \<lparr>id_msg = toString (now env), role_msg = user,
               content = text, timestamp = date env\<rparr>;
            prev = chatState st;
            st1 = st\<lparr>chatState :=
                     prev\<lparr>messages :=
                            \<lparr>arrayRef = freshRef env,
                             elems = elems (messages prev) @ [userMessage]\<rparr>,
                          isLoading := True\<rparr>\<rparr>
        in (closeSidebarOnMobile env st1, Some (text, selectedRole (chatState st))))"

text \<open>What a rejected promise carries: an \<open>Error\<close> with its message, or any other value.\<close>

datatype Thrown = Error string | NotAnError

datatype Outcome = Resolved string | Rejected Thrown

definition failureMessage :: "Thrown \<Rightarrow> string" where
  "failureMessage err =
     (case err of Error m \<Rightarrow> m | NotAnError \<Rightarrow> ''An unexpected error occurred'')"

text \<open>\<open>handleSendMessage\<close> from its \<open>await\<close> on: the \<open>try\<close> body, or the \<open>catch\<close>.\<close>

definition handleSendMessage_settled :: "Env \<Rightarrow> Outcome \<Rightarrow> App \<Rightarrow> App" where
  "handleSendMessage_settled env outcome st =
     (case outcome of
        Resolved aiResponse \<Rightarrow>
          let assistantMessage =
                \<lparr>id_msg = toString (now env + 1), role_msg = assistant,
                 content = aiResponse, timestamp = date env\<rparr>;
              prev = chatState st
          in st\<lparr>chatState :=
                  prev\<lparr>messages :=
                         \<lparr>arrayRef = freshRef env,
                          elems = elems (messages prev) @ [assistantMessage]\<rparr>,
                       isLoading := False\<rparr>\<rparr>
      | Rejected err \<Rightarrow>
          st\<lparr>chatState := (chatState st)\<lparr>isLoading := False\<rparr>,
             error := Some (failureMessage err)\<rparr>)"

definition handleRoleChange :: "Env \<Rightarrow> SelectedRole \<Rightarrow> App \<Rightarrow> App" where
  "handleRoleChange env r st =
     closeSidebarOnMobile env (st\<lparr>chatState := (chatState st)\<lparr>selectedRole := r\<rparr>\<rparr>)"

definition handleLoadChat :: "Env \<Rightarrow> ChatHistory \<Rightarrow> App \<Rightarrow> App" where
  "handleLoadChat env history st =
     closeSidebarOnMobile env
       (st\<lparr>chatState :=
             (chatState st)\<lparr>messages := messages_hist history,
                            selectedRole := role_hist history,
                            isLoading := False\<rparr>,
           currentChatId := Some (id_hist history)\<rparr>)"

definition handleNewChat :: "Env \<Rightarrow> App \<Rightarrow> App" where
  "handleNewChat env st =
     closeSidebarOnMobile env
       (st\<lparr>chatState :=
             (chatState st)\<lparr>messages := \<lparr>arrayRef = freshRef env, elems = []\<rparr>,
                            isLoading := False\<rparr>,
           currentChatId := None\<rparr>)"

definition clearError :: "App \<Rightarrow> App" where
  "clearError st = st\<lparr>error := None\<rparr>"

subsection \<open>What the render hands to the components\<close>

text \<open>The prop \<open>isLoading\<close> that the render passes to \<open>ChatInput\<close> (line 484).\<close>

definition chatInput_isLoading :: "App \<Rightarrow> bool" where
  "chatInput_isLoading st = (isLoading (chatState st) \<or> truthy (error st))"

text \<open>
  The props of \<open>ErrorMessage\<close> (lines 396 to 403); the component is rendered only when
  \<open>error\<close> is truthy, and \<open>onRetry\<close> is \<open>undefined\<close> or \<open>clearError\<close>.
\<close>

record ErrorMessageProps =
  message :: string
  onRetry :: "(App \<Rightarrow> App) option"

definition errorMessage :: "App \<Rightarrow> ErrorMessageProps option" where
  "errorMessage st =
     (case error st of
        None \<Rightarrow> None
      | Some e \<Rightarrow>
          if e = [] then None
          else Some \<lparr>message = e,
                     onRetry = (if includes_str e ''GEMINI_API_KEY'' then None
                                else Some clearError)\<rparr>)"

subsection \<open>Auto-save\<close>

text \<open>The body of the effect of lines 160 to 172: the call to \<open>saveChatHistory\<close>, if any.\<close>

definition autoSave :: "App \<Rightarrow> SavePayload option" where
  "autoSave st =
     (if isAuthenticated st \<and> length (elems (messages (chatState st))) \<ge> 2 then
        let hasUserMessage = list_ex (\<lambda>m. role_msg m = user) (elems (messages (chatState st)));
            hasAIResponse = list_ex (\<lambda>m. role_msg m = assistant) (elems (messages (chatState st)))
        in if hasUserMessage \<and> hasAIResponse
           then Some \<lparr>messages_saved = messages (chatState st),
                       role_saved = selectedRole (chatState st)\<rparr>
           else None
      else None)"

text \<open>
  Its dependency list \<open>[chatState.messages, isAuthenticated, chatState.selectedRole,
  saveChatHistory]\<close>, as \<open>Object.is\<close> sees it: the array and the function by identity.
\<close>

type_synonym AutoSaveDeps = "nat \<times> bool \<times> SelectedRole \<times> nat"

definition autoSaveDeps :: "App \<Rightarrow> AutoSaveDeps" where
  "autoSaveDeps st =
     (arrayRef (messages (chatState st)), isAuthenticated st,
      selectedRole (chatState st), saveChatHistory st)"

text \<open>
  \<open>useEffect\<close> after a render: the body runs on the first render (\<open>lastDeps = None\<close>) and
  whenever a dependency differs from the one of the render before.
\<close>

definition useEffect_autoSave :: "AutoSaveDeps option \<Rightarrow> App \<Rightarrow> SavePayload option" where
  "useEffect_autoSave lastDeps st =
     (if lastDeps = Some (autoSaveDeps st) then None else autoSave st)"

text \<open>The saves issued over successive renders, oldest first.\<close>

fun savesOf :: "AutoSaveDeps option \<Rightarrow> App list \<Rightarrow> SavePayload list" where
  "savesOf lastDeps [] = []"
| "savesOf lastDeps (st # sts) =
     (case useEffect_autoSave lastDeps st of None \<Rightarrow> [] | Some p \<Rightarrow> [p])
     @ savesOf (Some (autoSaveDeps st)) sts"

subsection \<open>A session: the component and the requests in flight\<close>

text \<open>
  \<open>inflight\<close> holds the calls to \<open>generateResponse\<close> whose promise has not settled yet.
  An event is a callback the components or the runtime invoke. \<open>clearError\<close> is reachable
  only as the \<open>onRetry\<close> of \<open>ErrorMessage\<close>; every other handler may be invoked at any
  time.
\<close>

record Session =
  app :: App
  inflight :: "GenerateCall list"

datatype Event =
    OnSend string                 \<comment> \<open>\<open>ChatInput\<close> calls \<open>onSend\<close>\<close>
  | Settled nat Outcome           \<comment> \<open>the promise of the k-th call in flight settles\<close>
  | OnRoleChange SelectedRole
  | OnLoadChat ChatHistory
  | OnNewChat
  | OnRetry                       \<comment> \<open>\<open>ErrorMessage\<close> calls \<open>onRetry\<close>, when it has one\<close>
  | OnLogin
  | OnGuestAccess
  | OnAuthComplete
  | OnLogout
  | SetShowLogoutConfirm bool
  | SetSidebarOpen bool
  | AuthChanged bool              \<comment> \<open>the authentication context reports this value\<close>
  | SaveChatHistoryChanged nat    \<comment> \<open>the history context hands out another function\<close>

fun fire :: "Env \<Rightarrow> Event \<Rightarrow> Session \<Rightarrow> Session" where
  "fire env (OnSend text) s =
     (case handleSendMessage env text (app s) of
        (st, None) \<Rightarrow> s\<lparr>app := st\<rparr>
      | (st, Some call) \<Rightarrow> \<lparr>app = st, inflight = inflight s @ [call]\<rparr>)"
| "fire env (Settled k outcome) s =
     (if k < length (inflight s)
      then \<lparr>app = handleSendMessage_settled env outcome (app s),
            inflight = take k (inflight s) @ drop (Suc k) (inflight s)\<rparr>
      else s)"
| "fire env (OnRoleChange r) s = s\<lparr>app := handleRoleChange env r (app s)\<rparr>"
| "fire env (OnLoadChat history) s = s\<lparr>app := handleLoadChat env history (app s)\<rparr>"
| "fire env OnNewChat s = s\<lparr>app := handleNewChat env (app s)\<rparr>"
| "fire env OnRetry s =
     (case errorMessage (app s) of
        None \<Rightarrow> s
      | Some props \<Rightarrow>
          (case onRetry props of None \<Rightarrow> s | Some retry \<Rightarrow> s\<lparr>app := retry (app s)\<rparr>))"
| "fire env OnLogin s = s\<lparr>app := handleLogin (app s)\<rparr>"
| "fire env OnGuestAccess s = s\<lparr>app := handleGuestAccess (app s)\<rparr>"
| "fire env OnAuthComplete s = s\<lparr>app := handleAuthComplete (app s)\<rparr>"
| "fire env OnLogout s = s\<lparr>app := handleLogout env (app s)\<rparr>"
| "fire env (SetShowLogoutConfirm b) s = s\<lparr>app := (app s)\<lparr>showLogoutConfirm := b\<rparr>\<rparr>"
| "fire env (SetSidebarOpen b) s = s\<lparr>app := (app s)\<lparr>sidebarOpen := b\<rparr>\<rparr>"
| "fire env (AuthChanged b) s =
     (if b = isAuthenticated (app s) then s
      else s\<lparr>app := authEffect ((app s)\<lparr>isAuthenticated := b\<rparr>)\<rparr>)"
| "fire env (SaveChatHistoryChanged f) s = s\<lparr>app := (app s)\<lparr>saveChatHistory := f\<rparr>\<rparr>"

fun run :: "(Env \<times> Event) list \<Rightarrow> Session \<Rightarrow> Session" where
  "run [] s = s"
| "run ((env, ev) # evs) s = run evs (fire env ev s)"

definition startSession :: "Env \<Rightarrow> string option \<Rightarrow> bool \<Rightarrow> nat \<Rightarrow> Session" where
  "startSession env apiKey auth saveFn = \<lparr>app = mount env apiKey auth saveFn, inflight = []\<rparr>"

subsection \<open>Scenarios\<close>

text \<open>
  Concrete sessions: a wide window, the clock and the array identities advancing with
  each step, the API key present.
\<close>

definition envAt :: "nat \<Rightarrow> Env" where
  "envAt n = \<lparr>now = 1700000000000 + n, date = 1700000000000 + n,
              innerWidth = 1280, freshRef = n\<rparr>"

definition guestStart :: App where
  "guestStart = mount (envAt 0) (Some ''key'') False 0"

definition guestAwaiting :: App where
  "guestAwaiting = fst (handleSendMessage (envAt 1) ''What is clinker?'' guestStart)"

definition guestFailed :: App where
  "guestFailed =
     handleSendMessage_settled (envAt 2) (Rejected (Error ''network timeout'')) guestAwaiting"

definition userStart :: App where
  "userStart = mount (envAt 0) (Some ''key'') True 0"

definition userAwaiting :: App where
  "userAwaiting = fst (handleSendMessage (envAt 1) ''What is clinker?'' userStart)"

definition userAnswered :: App where
  "userAnswered = handleSendMessage_settled (envAt 2) (Resolved ''Clinker is...'') userAwaiting"

definition userMaintenance :: App where
  "userMaintenance = handleRoleChange (envAt 3) (Expert Maintenance) userAnswered"

definition userOperations :: App where
  "userOperations = handleRoleChange (envAt 4) (Expert Operations) userMaintenance"

definition savedHistory :: ChatHistory where
  "savedHistory =
     \<lparr>id_hist = ''chat-1'',
      messages_hist = messages (chatState userAnswered),
      role_hist = Expert Maintenance\<rparr>"

text \<open>
  A new conversation started while the request is outstanding, and the answer or the
  failure arriving after it.
\<close>

definition userNewChat :: App where
  "userNewChat = handleNewChat (envAt 2) userAwaiting"

definition userLateAnswer :: App where
  "userLateAnswer = handleSendMessage_settled (envAt 3) (Resolved ''Clinker is...'') userNewChat"

definition guestNewChat :: App where
  "guestNewChat = handleNewChat (envAt 2) guestAwaiting"

definition guestLateFailure :: App where
  "guestLateFailure =
     handleSendMessage_settled (envAt 3) (Rejected (Error ''network timeout'')) guestNewChat"

subsection \<open>The blocked session\<close>

text \<open>
  The invariant of a session whose API key is missing: the configuration message is the
  current error and no call to the responder is in flight.
\<close>

definition blocked :: "Session \<Rightarrow> bool" where
  "blocked s = (error (app s) = Some apiKeyMessage \<and> inflight s = [])"

section \<open>Properties\<close>

subsection \<open>Auxiliary facts\<close>

lemmas handler_defs =
  handleSendMessage_def handleSendMessage_settled_def handleRoleChange_def
  handleLoadChat_def handleNewChat_def clearError_def closeSidebarOnMobile_def
  failureMessage_def Let_def

lemmas scenario_defs =
  guestStart_def guestAwaiting_def guestFailed_def userStart_def userAwaiting_def
  userAnswered_def userMaintenance_def userOperations_def savedHistory_def envAt_def
  mount_def apiKeyEffect_def authEffect_def initialApp_def initialChatState_def

lemma truthy_simps [simp]:
  "truthy None = False" "truthy (Some s) = (s \<noteq> [])"
  by (simp_all add: truthy_def)

text \<open>Closing the sidebar touches nothing else.\<close>

lemma closeSidebarOnMobile_frame [simp]:
  "chatState (closeSidebarOnMobile env st) = chatState st"
  "error (closeSidebarOnMobile env st) = error st"
  "isAuthenticated (closeSidebarOnMobile env st) = isAuthenticated st"
  "currentChatId (closeSidebarOnMobile env st) = currentChatId st"
  "saveChatHistory (closeSidebarOnMobile env st) = saveChatHistory st"
  by (simp_all add: closeSidebarOnMobile_def)

text \<open>\<open>handleSendMessage\<close> reaches the responder exactly when no error is displayed.\<close>

lemma handleSendMessage_issues_iff:
  "snd (handleSendMessage env text st) = None \<longleftrightarrow> truthy (error st)"
  by (simp add: handleSendMessage_def Let_def)

lemma apiKeyMessage_includes: "includes_str apiKeyMessage ''GEMINI_API_KEY''"
  by (simp add: apiKeyMessage_def)

lemma apiKeyMessage_nonempty: "apiKeyMessage \<noteq> []"
  by (simp add: apiKeyMessage_def)

lemma errorMessage_apiKey:
  "error st = Some apiKeyMessage \<Longrightarrow>
     errorMessage st = Some \<lparr>message = apiKeyMessage, onRetry = None\<rparr>"
  by (simp add: errorMessage_def apiKeyMessage_nonempty apiKeyMessage_includes)

lemma blocked_fire: "blocked s \<Longrightarrow> blocked (fire env ev s)"
  by (cases ev)
     (simp_all add: blocked_def handler_defs handleLogin_def handleGuestAccess_def
        handleAuthComplete_def handleLogout_def authEffect_def errorMessage_apiKey
        apiKeyMessage_nonempty)

lemma blocked_run: "blocked s \<Longrightarrow> blocked (run evs s)"
  by (induction evs arbitrary: s) (auto simp add: blocked_fire)

lemma blocked_start: "\<not> truthy apiKey \<Longrightarrow> blocked (startSession env apiKey auth saveFn)"
  by (simp add: blocked_def startSession_def mount_def apiKeyEffect_def)

lemma blocked_send:
  "blocked s \<Longrightarrow> handleSendMessage env text (app s) = (app s, None)"
  by (simp add: blocked_def handleSendMessage_def apiKeyMessage_nonempty)

lemma savesOf_length: "length (savesOf d rs) \<le> length rs"
  by (induction rs arbitrary: d) (auto split: option.splits intro: le_SucI)

subsection \<open>Sending: the successful round trip\<close>

text \<open>
  C1, as the code has it. Take a send that reaches the responder, in the idle state or in
  any other: \<open>handleSendMessage\<close> returns the call it issued, which carries the text and
  the selected role, and has appended the user message carrying the text. The answer
  \<open>reply\<close> is applied to the state \<open>st'\<close> that is current when it arrives: it appends
  the assistant message carrying the reply to the sequence of \<open>st'\<close> and sets the loading
  flag to false, the role and the error of \<open>st'\<close> staying as they are. When the message
  sequence of \<open>st'\<close> is still the one the send left, the sequence after the answer is the
  one before the send followed by the user message and then the assistant message, and the
  count has grown by exactly two.
\<close>

theorem send_success_appends_two:
  assumes issued: "handleSendMessage env text st = (st1, Some call)"
    and settled: "st2 = handleSendMessage_settled env' (Resolved reply) st'"
  shows "elems (messages (chatState st1)) =
           elems (messages (chatState st))
           @ [\<lparr>id_msg = toString (now env), role_msg = user,
                content = text, timestamp = date env\<rparr>]
         \<and> call = (text, selectedRole (chatState st))
         \<and> elems (messages (chatState st2)) =
             elems (messages (chatState st'))
             @ [\<lparr>id_msg = toString (now env' + 1), role_msg = assistant,
                  content = reply, timestamp = date env'\<rparr>]
         \<and> isLoading (chatState st2) = False
         \<and> selectedRole (chatState st2) = selectedRole (chatState st')
         \<and> error st2 = error st'
         \<and> (elems (messages (chatState st')) = elems (messages (chatState st1)) \<longrightarrow>
               elems (messages (chatState st2)) =
                 elems (messages (chatState st))
                 @ [\<lparr>id_msg = toString (now env), role_msg = user,
                      content = text, timestamp = date env\<rparr>,
                    \<lparr>id_msg = toString (now env' + 1), role_msg = assistant,
                      content = reply, timestamp = date env'\<rparr>]
               \<and> length (elems (messages (chatState st2))) =
                   length (elems (messages (chatState st))) + 2)"
  using issued unfolding settled
  by (auto simp add: handleSendMessage_def handleSendMessage_settled_def Let_def
           split: if_splits)

text \<open>
  The scenario of the spec: "What is clinker?" asked in the idle state and answered by
  "Clinker is..." with nothing in between.
\<close>

theorem send_success_appends_two_witness:
  "isLoading (chatState userStart) = False
   \<and> handleSendMessage (envAt 1) ''What is clinker?'' userStart
       = (userAwaiting, Some (''What is clinker?'', Expert Operations))
   \<and> elems (messages (chatState userAwaiting)) = elems (messages (chatState userAwaiting))
   \<and> map content (elems (messages (chatState userAnswered)))
       = [''What is clinker?'', ''Clinker is...'']
   \<and> map role_msg (elems (messages (chatState userAnswered))) = [user, assistant]
   \<and> length (elems (messages (chatState userAnswered)))
       = length (elems (messages (chatState userStart))) + 2
   \<and> isLoading (chatState userAnswered) = False"
proof -
  have idle: "isLoading (chatState userStart) = False"
    and noerr: "error userStart = None"
    and role: "selectedRole (chatState userStart) = Expert Operations"
    and empty: "elems (messages (chatState userStart)) = []"
    by (simp_all add: scenario_defs)
  have issued: "handleSendMessage (envAt 1) ''What is clinker?'' userStart
       = (userAwaiting, Some (''What is clinker?'', Expert Operations))"
    by (simp add: userAwaiting_def handleSendMessage_def Let_def noerr role)
  have settled: "userAnswered
       = handleSendMessage_settled (envAt 2) (Resolved ''Clinker is...'') userAwaiting"
    by (simp add: userAnswered_def)
  show ?thesis
    using send_success_appends_two [OF issued settled] idle issued
    by (simp add: empty)
qed

text \<open>
  C1 as stated fails: a send in the idle state, with nothing else in flight, reaches the
  responder; the user starts a new conversation while waiting; the answer then arrives.
  The sequence was empty before the send and holds the assistant message alone after the
  round trip: the count has grown by one, not two, and no user message precedes the
  answer.
\<close>

theorem send_success_late_answer_counterexample:
  "isLoading (chatState userStart) = False
   \<and> elems (messages (chatState userStart)) = []
   \<and> handleSendMessage (envAt 1) ''What is clinker?'' userStart
       = (userAwaiting, Some (''What is clinker?'', Expert Operations))
   \<and> userNewChat = handleNewChat (envAt 2) userAwaiting
   \<and> userLateAnswer
       = handleSendMessage_settled (envAt 3) (Resolved ''Clinker is...'') userNewChat
   \<and> map role_msg (elems (messages (chatState userLateAnswer))) = [assistant]
   \<and> map content (elems (messages (chatState userLateAnswer))) = [''Clinker is...'']
   \<and> length (elems (messages (chatState userLateAnswer))) = 1
   \<and> map role_msg (elems (messages (chatState (app
         (run [(envAt 1, OnSend ''What is clinker?''), (envAt 2, OnNewChat),
               (envAt 3, Settled 0 (Resolved ''Clinker is...''))]
            (startSession (envAt 0) (Some ''key'') True 0)))))) = [assistant]"
  by (simp add: scenario_defs userNewChat_def userLateAnswer_def handler_defs startSession_def)

subsection \<open>Sending while a request is outstanding\<close>

text \<open>
  C2, as the code has it. \<open>handleSendMessage\<close> tests the error only, never the loading
  flag. In a state whose loading flag is true the render passes \<open>isLoading = true\<close> to
  \<open>ChatInput\<close>, and a call of the handler leaves the role and the error as they were;
  but the handler itself refuses the send only when an error is displayed. With no error it appends the user message, keeps the loading flag true and
  issues a further call to the responder.
\<close>

theorem send_while_loading:
  assumes loading: "isLoading (chatState st)"
  shows "chatInput_isLoading st
         \<and> (snd (handleSendMessage env text st) = None \<longleftrightarrow> truthy (error st))
         \<and> (truthy (error st) \<longrightarrow> fst (handleSendMessage env text st) = st)
         \<and> (\<not> truthy (error st) \<longrightarrow>
               snd (handleSendMessage env text st) = Some (text, selectedRole (chatState st))
               \<and> elems (messages (chatState (fst (handleSendMessage env text st)))) =
                   elems (messages (chatState st))
                   @ [\<lparr>id_msg = toString (now env), role_msg = user,
                        content = text, timestamp = date env\<rparr>]
               \<and> isLoading (chatState (fst (handleSendMessage env text st))))
         \<and> selectedRole (chatState (fst (handleSendMessage env text st)))
             = selectedRole (chatState st)
         \<and> error (fst (handleSendMessage env text st)) = error st"
  using loading by (simp add: chatInput_isLoading_def handler_defs)

theorem send_while_loading_witness:
  "isLoading (chatState userAwaiting)
   \<and> \<not> truthy (error userAwaiting)
   \<and> chatInput_isLoading userAwaiting
   \<and> map content (elems (messages (chatState
         (fst (handleSendMessage (envAt 2) ''And gypsum?'' userAwaiting)))))
       = [''What is clinker?'', ''And gypsum?'']
   \<and> isLoading (chatState (userAwaiting\<lparr>error := Some ''network timeout''\<rparr>))
   \<and> truthy (error (userAwaiting\<lparr>error := Some ''network timeout''\<rparr>))
   \<and> handleSendMessage (envAt 2) ''And gypsum?'' (userAwaiting\<lparr>error := Some ''network timeout''\<rparr>)
       = (userAwaiting\<lparr>error := Some ''network timeout''\<rparr>, None)"
proof -
  have loading: "isLoading (chatState userAwaiting)"
    and noerr: "error userAwaiting = None"
    and before: "map content (elems (messages (chatState userAwaiting))) = [''What is clinker?'']"
    by (simp_all add: scenario_defs handler_defs)
  have loading': "isLoading (chatState (userAwaiting\<lparr>error := Some ''network timeout''\<rparr>))"
    using loading by simp
  show ?thesis
    using send_while_loading [OF loading, of "envAt 2" "''And gypsum?''"]
      send_while_loading [OF loading', of "envAt 2" "''And gypsum?''"]
      loading noerr before
    by (simp add: prod_eq_iff)
qed

text \<open>
  C2 as stated fails: while the first request is outstanding (loading flag true, no
  error), a second send takes the message count from 1 to 2 and puts a second call to the
  responder in flight.
\<close>

theorem send_while_loading_counterexample:
  "isLoading (chatState userAwaiting)
   \<and> error userAwaiting = None
   \<and> length (elems (messages (chatState userAwaiting))) = 1
   \<and> length (elems (messages (chatState
         (fst (handleSendMessage (envAt 2) ''And gypsum?'' userAwaiting))))) = 2
   \<and> snd (handleSendMessage (envAt 2) ''And gypsum?'' userAwaiting)
       = Some (''And gypsum?'', Expert Operations)
   \<and> inflight (fire (envAt 2) (OnSend ''And gypsum?'')
         (fire (envAt 1) (OnSend ''What is clinker?'')
            (startSession (envAt 0) (Some ''key'') True 0)))
       = [(''What is clinker?'', Expert Operations), (''And gypsum?'', Expert Operations)]"
  by (simp add: scenario_defs handler_defs startSession_def)

subsection \<open>Sending: the failed round trip\<close>

text \<open>
  C3, as the code has it. Take a send that has reached the responder, and let the
  responder fail with an error that is not of the configuration class (its message does
  not contain \<open>GEMINI_API_KEY\<close>). The failure is applied to the state \<open>st'\<close> that is
  current when it arrives: the failure's message becomes the current error, the loading
  flag becomes false, and the messages of \<open>st'\<close> are left as they are, no assistant
  message being appended. When the message sequence of \<open>st'\<close> is still the one the send
  left, it is the sequence before the send followed by the user message only. The failure
  is not fatal, but a resend is accepted only once the error has been cleared: while the
  recorded message is non-empty any further send is refused and
  \<open>ChatInput\<close> receives \<open>isLoading = true\<close>, the error display offers \<open>clearError\<close> as
  its retry action, and
  after \<open>clearError\<close>, which leaves the conversation as it was, a send reaches the
  responder again.
\<close>

theorem send_failure_recorded:
  assumes issued: "handleSendMessage env text st = (st1, Some call)"
    and notConfig: "\<not> includes_str (failureMessage err) ''GEMINI_API_KEY''"
    and settled: "st2 = handleSendMessage_settled env' (Rejected err) st'"
  shows "error st2 = Some (failureMessage err)
         \<and> isLoading (chatState st2) = False
         \<and> messages (chatState st2) = messages (chatState st')
         \<and> selectedRole (chatState st2) = selectedRole (chatState st')
         \<and> elems (messages (chatState st1)) =
             elems (messages (chatState st))
             @ [\<lparr>id_msg = toString (now env), role_msg = user,
                  content = text, timestamp = date env\<rparr>]
         \<and> (elems (messages (chatState st')) = elems (messages (chatState st1)) \<longrightarrow>
               elems (messages (chatState st2)) =
                 elems (messages (chatState st))
                 @ [\<lparr>id_msg = toString (now env), role_msg = user,
                      content = text, timestamp = date env\<rparr>])
         \<and> (failureMessage err \<noteq> [] \<longrightarrow>
               handleSendMessage env'' text' st2 = (st2, None)
               \<and> chatInput_isLoading st2
               \<and> errorMessage st2
                   = Some \<lparr>message = failureMessage err, onRetry = Some clearError\<rparr>)
         \<and> snd (handleSendMessage env'' text' (clearError st2))
             = Some (text', selectedRole (chatState st'))
         \<and> chatState (clearError st2) = chatState st2"
  using issued notConfig unfolding settled
  by (auto simp add: handler_defs errorMessage_def chatInput_isLoading_def
           split: if_splits)

text \<open>
  The scenario of the spec: the responder fails with "network timeout", nothing having
  happened since the send.
\<close>

theorem send_failure_recorded_witness:
  "handleSendMessage (envAt 1) ''What is clinker?'' guestStart
     = (guestAwaiting, Some (''What is clinker?'', Expert Operations))
   \<and> \<not> includes_str (failureMessage (Error ''network timeout'')) ''GEMINI_API_KEY''
   \<and> failureMessage (Error ''network timeout'') \<noteq> []
   \<and> elems (messages (chatState guestAwaiting)) = elems (messages (chatState guestAwaiting))
   \<and> error guestFailed = Some ''network timeout''
   \<and> isLoading (chatState guestFailed) = False
   \<and> map role_msg (elems (messages (chatState guestFailed))) = [user]
   \<and> map content (elems (messages (chatState guestFailed))) = [''What is clinker?'']
   \<and> handleSendMessage (envAt 4) ''What is clinker?'' guestFailed = (guestFailed, None)
   \<and> snd (handleSendMessage (envAt 4) ''What is clinker?'' (clearError guestFailed))
       = Some (''What is clinker?'', Expert Operations)"
proof -
  have issued: "handleSendMessage (envAt 1) ''What is clinker?'' guestStart
     = (guestAwaiting, Some (''What is clinker?'', Expert Operations))"
    by (simp add: scenario_defs handler_defs)
  have notConfig: "\<not> includes_str (failureMessage (Error ''network timeout'')) ''GEMINI_API_KEY''"
    by (simp add: failureMessage_def)
  have settled: "guestFailed
     = handleSendMessage_settled (envAt 2) (Rejected (Error ''network timeout'')) guestAwaiting"
    by (simp add: guestFailed_def)
  have empty: "elems (messages (chatState guestStart)) = []"
    and role: "selectedRole (chatState guestAwaiting) = Expert Operations"
    by (simp_all add: scenario_defs handler_defs)
  show ?thesis
    using send_failure_recorded [OF issued notConfig settled, of "envAt 4" "''What is clinker?''"]
      issued notConfig
    by (simp add: empty role failureMessage_def)
qed

text \<open>
  C3 as stated fails twice. Straight after the failure "network timeout" the machine is
  idle, yet a resend changes nothing and reaches no responder. And when a new
  conversation was started while the request was outstanding, the sequence after the
  failure does not contain the user message of the send: it is empty.
\<close>

theorem resend_after_failure_counterexample:
  "error guestFailed = Some ''network timeout''
   \<and> isLoading (chatState guestFailed) = False
   \<and> handleSendMessage (envAt 3) ''What is clinker?'' guestFailed = (guestFailed, None)
   \<and> handleSendMessage (envAt 1) ''What is clinker?'' guestStart
       = (guestAwaiting, Some (''What is clinker?'', Expert Operations))
   \<and> guestNewChat = handleNewChat (envAt 2) guestAwaiting
   \<and> guestLateFailure
       = handleSendMessage_settled (envAt 3) (Rejected (Error ''network timeout'')) guestNewChat
   \<and> error guestLateFailure = Some ''network timeout''
   \<and> elems (messages (chatState guestLateFailure)) = []"
  by (simp add: scenario_defs guestNewChat_def guestLateFailure_def handler_defs)

subsection \<open>Sending empty text\<close>

text \<open>
  C4, as the code has it. \<open>handleSendMessage\<close> never looks at the text, so empty and
  whitespace-only text is treated as any other: whether the send is refused depends on
  the state alone (it is refused exactly when an error is displayed, and then nothing
  changes); otherwise the text is appended as it is in a user message, the loading flag
  is set and the responder is called with that text, the role and the error staying as
  they were.
\<close>

theorem send_ignores_text:
  "(snd (handleSendMessage env text st) = None \<longleftrightarrow> truthy (error st))
   \<and> (snd (handleSendMessage env text st) = None
        \<longleftrightarrow> snd (handleSendMessage env text' st) = None)
   \<and> (truthy (error st) \<longrightarrow> handleSendMessage env text st = (st, None))
   \<and> (\<not> truthy (error st) \<longrightarrow>
         snd (handleSendMessage env text st) = Some (text, selectedRole (chatState st))
         \<and> elems (messages (chatState (fst (handleSendMessage env text st)))) =
             elems (messages (chatState st))
             @ [\<lparr>id_msg = toString (now env), role_msg = user,
                  content = text, timestamp = date env\<rparr>]
         \<and> isLoading (chatState (fst (handleSendMessage env text st)))
         \<and> selectedRole (chatState (fst (handleSendMessage env text st)))
             = selectedRole (chatState st)
         \<and> error (fst (handleSendMessage env text st)) = error st)"
  by (simp add: handler_defs)

theorem send_ignores_text_witness:
  "truthy (error guestFailed)
   \<and> handleSendMessage (envAt 3) ''  '' guestFailed = (guestFailed, None)
   \<and> \<not> truthy (error guestStart)
   \<and> snd (handleSendMessage (envAt 1) ''  '' guestStart) = Some (''  '', Expert Operations)
   \<and> map content (elems (messages (chatState (fst (handleSendMessage (envAt 1) ''  '' guestStart)))))
       = [''  '']"
proof -
  have failed: "truthy (error guestFailed)"
    by (simp add: scenario_defs handler_defs)
  have fresh: "\<not> truthy (error guestStart)"
    and empty: "elems (messages (chatState guestStart)) = []"
    and role: "selectedRole (chatState guestStart) = Expert Operations"
    by (simp_all add: scenario_defs)
  show ?thesis
    using send_ignores_text [of "envAt 3" "''  ''" guestFailed]
      send_ignores_text [of "envAt 1" "''  ''" guestStart] failed fresh
    by (simp add: empty role)
qed

text \<open>
  C4 as stated fails: in the idle state with no error, the empty text and a text of three
  blanks are each appended as a user message, the loading flag is set and the responder
  is called.
\<close>

theorem send_blank_text_counterexample:
  "error guestStart = None
   \<and> elems (messages (chatState guestStart)) = []
   \<and> isLoading (chatState guestStart) = False
   \<and> map content (elems (messages (chatState (fst (handleSendMessage (envAt 1) [] guestStart)))))
       = [[]]
   \<and> isLoading (chatState (fst (handleSendMessage (envAt 1) [] guestStart)))
   \<and> snd (handleSendMessage (envAt 1) [] guestStart) = Some ([], Expert Operations)
   \<and> map content (elems (messages (chatState (fst (handleSendMessage (envAt 1) ''   '' guestStart)))))
       = [''   '']
   \<and> snd (handleSendMessage (envAt 1) ''   '' guestStart) = Some (''   '', Expert Operations)"
  by (simp add: scenario_defs handler_defs)

subsection \<open>The missing API key\<close>

text \<open>
  C5. When the API key is undefined or empty at startup, mounting sets the configuration
  error. Whatever events follow (sends, settlements, role changes, loads, new chats,
  retries where the error display offers one, login, logout, changes of the contexts),
  the configuration error is still the current error, no call to the responder has been
  issued, a send changes nothing and issues no call, the error display offers no retry
  action, and \<open>ChatInput\<close> keeps receiving \<open>isLoading = true\<close>.
\<close>

theorem missing_api_key_blocks:
  assumes missing: "\<not> truthy apiKey"
  shows "error (mount env apiKey auth saveFn) = Some apiKeyMessage
         \<and> error (app (run evs (startSession env apiKey auth saveFn))) = Some apiKeyMessage
         \<and> inflight (run evs (startSession env apiKey auth saveFn)) = []
         \<and> handleSendMessage env' text (app (run evs (startSession env apiKey auth saveFn)))
             = (app (run evs (startSession env apiKey auth saveFn)), None)
         \<and> fire env' (OnSend text) (run evs (startSession env apiKey auth saveFn))
             = run evs (startSession env apiKey auth saveFn)
         \<and> fire env' OnRetry (run evs (startSession env apiKey auth saveFn))
             = run evs (startSession env apiKey auth saveFn)
         \<and> chatInput_isLoading (app (run evs (startSession env apiKey auth saveFn)))"
proof -
  let ?s = "run evs (startSession env apiKey auth saveFn)"
  have b: "blocked ?s"
    using missing by (simp add: blocked_start blocked_run)
  have e: "error (app ?s) = Some apiKeyMessage" and i: "inflight ?s = []"
    using b by (simp_all add: blocked_def)
  have m: "error (mount env apiKey auth saveFn) = Some apiKeyMessage"
    using missing by (simp add: mount_def apiKeyEffect_def)
  have h: "handleSendMessage env' text (app ?s) = (app ?s, None)"
    using b by (rule blocked_send)
  have f: "fire env' (OnSend text) ?s = ?s"
    by (simp add: h)
  have r: "fire env' OnRetry ?s = ?s"
    by (simp add: errorMessage_apiKey [OF e])
  have c: "chatInput_isLoading (app ?s)"
    by (simp add: chatInput_isLoading_def e apiKeyMessage_nonempty)
  show ?thesis
    using m e i h f r c by simp
qed

theorem missing_api_key_blocks_witness:
  "\<not> truthy None
   \<and> error (app (run [(envAt 1, OnSend ''What is clinker?''), (envAt 2, OnRetry),
                      (envAt 3, OnNewChat), (envAt 4, OnSend ''What is clinker?'')]
               (startSession (envAt 0) None False 0))) = Some apiKeyMessage
   \<and> inflight (run [(envAt 1, OnSend ''What is clinker?''), (envAt 2, OnRetry),
                      (envAt 3, OnNewChat), (envAt 4, OnSend ''What is clinker?'')]
               (startSession (envAt 0) None False 0)) = []"
proof -
  have missing: "\<not> truthy None" by simp
  show ?thesis
    using missing_api_key_blocks [OF missing, of "envAt 0" False 0
        "[(envAt 1, OnSend ''What is clinker?''), (envAt 2, OnRetry),
          (envAt 3, OnNewChat), (envAt 4, OnSend ''What is clinker?'')]"
        "envAt 5" "''What is clinker?''"]
    by simp
qed

subsection \<open>Auto-save\<close>

text \<open>
  C6, as the code has it. After a render the effect issues a save exactly when one of its
  dependencies (the messages array, the authentication flag, the selected role, the
  function \<open>saveChatHistory\<close>) differs from the render before, or the render is the
  first, and the session is authenticated, there are at least two messages, one of them a
  user message and one an assistant message; the payload is then the current messages
  array and the selected role. So it never saves when unauthenticated, never on a render
  that leaves the dependencies as they were, and at most once per render: once for each
  change into a snapshot that satisfies the condition, hence again when a snapshot comes
  back after a change in between.
\<close>

theorem autosave_policy:
  "(useEffect_autoSave lastDeps st = Some p \<longleftrightarrow>
      lastDeps \<noteq> Some (autoSaveDeps st)
      \<and> isAuthenticated st
      \<and> 2 \<le> length (elems (messages (chatState st)))
      \<and> (\<exists>m \<in> set (elems (messages (chatState st))). role_msg m = user)
      \<and> (\<exists>m \<in> set (elems (messages (chatState st))). role_msg m = assistant)
      \<and> p = \<lparr>messages_saved = messages (chatState st),
               role_saved = selectedRole (chatState st)\<rparr>)
   \<and> (\<not> isAuthenticated st \<longrightarrow> useEffect_autoSave lastDeps st = None)
   \<and> (autoSaveDeps st' = autoSaveDeps st \<longrightarrow>
        useEffect_autoSave (Some (autoSaveDeps st)) st' = None)
   \<and> length (savesOf lastDeps renders) \<le> length renders"
  using savesOf_length [of lastDeps renders]
  by (auto simp add: useEffect_autoSave_def autoSave_def Let_def list_ex_iff)

theorem autosave_policy_witness:
  "Some (autoSaveDeps userAwaiting) \<noteq> Some (autoSaveDeps userAnswered)
   \<and> isAuthenticated userAnswered
   \<and> useEffect_autoSave (Some (autoSaveDeps userAwaiting)) userAnswered
       = Some \<lparr>messages_saved = messages (chatState userAnswered),
                role_saved = Expert Operations\<rparr>
   \<and> \<not> isAuthenticated guestFailed
   \<and> useEffect_autoSave None guestFailed = None
   \<and> useEffect_autoSave (Some (autoSaveDeps userAnswered)) userAnswered = None"
proof -
  have deps: "Some (autoSaveDeps userAwaiting) \<noteq> Some (autoSaveDeps userAnswered)"
    by (simp add: scenario_defs handler_defs autoSaveDeps_def)
  have auth: "isAuthenticated userAnswered"
    and role: "selectedRole (chatState userAnswered) = Expert Operations"
    and len: "2 \<le> length (elems (messages (chatState userAnswered)))"
    and u: "\<exists>m \<in> set (elems (messages (chatState userAnswered))). role_msg m = user"
    and a: "\<exists>m \<in> set (elems (messages (chatState userAnswered))). role_msg m = assistant"
    by (simp_all add: scenario_defs handler_defs)
  have guest: "\<not> isAuthenticated guestFailed"
    by (simp add: scenario_defs handler_defs)
  show ?thesis
    using autosave_policy [of "Some (autoSaveDeps userAwaiting)" userAnswered
        "\<lparr>messages_saved = messages (chatState userAnswered), role_saved = Expert Operations\<rparr>"
        userAnswered "[]"]
      autosave_policy [of None guestFailed undefined userAnswered "[]"]
      deps auth len u a role guest
    by simp
qed

text \<open>
  C6 as stated fails in "exactly once per distinct snapshot": an authenticated user gets
  an answer, switches the role to Maintenance and back to Operations. The last render
  has the messages and the role of the render with the answer, and that snapshot is
  saved twice: three saves for two distinct snapshots.
\<close>

theorem autosave_recurring_snapshot_counterexample:
  "messages (chatState userOperations) = messages (chatState userAnswered)
   \<and> selectedRole (chatState userOperations) = selectedRole (chatState userAnswered)
   \<and> savesOf None [userStart, userAwaiting, userAnswered, userMaintenance, userOperations]
       = [\<lparr>messages_saved = messages (chatState userAnswered), role_saved = Expert Operations\<rparr>,
          \<lparr>messages_saved = messages (chatState userAnswered), role_saved = Expert Maintenance\<rparr>,
          \<lparr>messages_saved = messages (chatState userAnswered), role_saved = Expert Operations\<rparr>]"
  by (simp add: scenario_defs handler_defs useEffect_autoSave_def autoSave_def autoSaveDeps_def)

subsection \<open>Changing the role\<close>

text \<open>
  C7, as the code has it. \<open>handleRoleChange\<close> takes a value of the type
  \<open>UserRole | 'General AI'\<close>, so only roles of the registry reach it, and it honours every
  one of them whether or not the session is authenticated: the selected role becomes the
  role asked for. It produces no error and leaves the messages, the loading flag, the
  authentication flag and the conversation identifier as they were.
\<close>

theorem role_change_sets_role:
  "selectedRole (chatState (handleRoleChange env r st)) = r
   \<and> messages (chatState (handleRoleChange env r st)) = messages (chatState st)
   \<and> isLoading (chatState (handleRoleChange env r st)) = isLoading (chatState st)
   \<and> uploadedFiles (chatState (handleRoleChange env r st)) = uploadedFiles (chatState st)
   \<and> error (handleRoleChange env r st) = error st
   \<and> isAuthenticated (handleRoleChange env r st) = isAuthenticated st
   \<and> currentChatId (handleRoleChange env r st) = currentChatId st"
  by (simp add: handler_defs)

text \<open>
  C7 as stated fails: in a guest session with the role Operations, asking for General AI
  makes General AI the selected role.
\<close>

theorem role_change_unauthenticated_counterexample:
  "isAuthenticated guestStart = False
   \<and> selectedRole (chatState guestStart) = Expert Operations
   \<and> selectedRole (chatState (handleRoleChange (envAt 1) GeneralAI guestStart)) = GeneralAI"
  by (simp add: scenario_defs handler_defs)

subsection \<open>Starting a new conversation\<close>

text \<open>
  C8, as the code has it. After \<open>handleNewChat\<close> the message sequence is empty, the
  loading flag is false, the selected role is the one from before the call and the
  conversation identifier is cleared; the current error is left as it was.
\<close>

theorem new_chat_resets_conversation:
  "elems (messages (chatState (handleNewChat env st))) = []
   \<and> isLoading (chatState (handleNewChat env st)) = False
   \<and> selectedRole (chatState (handleNewChat env st)) = selectedRole (chatState st)
   \<and> error (handleNewChat env st) = error st
   \<and> currentChatId (handleNewChat env st) = None"
  by (simp add: handler_defs)

text \<open>
  C8 as stated fails in "the current error is cleared": the error "network timeout" of a
  failed send is still the current error after a new conversation is started.
\<close>

theorem new_chat_keeps_error_counterexample:
  "error guestFailed = Some ''network timeout''
   \<and> error (handleNewChat (envAt 3) guestFailed) = Some ''network timeout''"
  by (simp add: scenario_defs handler_defs)

subsection \<open>Loading a saved conversation\<close>

text \<open>
  C9, as the code has it. \<open>handleLoadChat\<close> replaces the messages and the selected role
  by those of the record, sets the loading flag to false and makes the record's
  identifier the current conversation; the current error is left as it was.
\<close>

theorem load_chat_replaces_conversation:
  "messages (chatState (handleLoadChat env history st)) = messages_hist history
   \<and> selectedRole (chatState (handleLoadChat env history st)) = role_hist history
   \<and> isLoading (chatState (handleLoadChat env history st)) = False
   \<and> error (handleLoadChat env history st) = error st
   \<and> currentChatId (handleLoadChat env history st) = Some (id_hist history)"
  by (simp add: handler_defs)

text \<open>
  C9 as stated fails in "clears any current error": the error "network timeout" of a
  failed send is still the current error after a saved conversation is loaded.
\<close>

theorem load_chat_keeps_error_counterexample:
  "error guestFailed = Some ''network timeout''
   \<and> error (handleLoadChat (envAt 3) savedHistory guestFailed) = Some ''network timeout''"
  by (simp add: scenario_defs handler_defs)

subsection \<open>Clearing the error\<close>

text \<open>
  C10. \<open>clearError\<close> sets the current error to null whatever it was, and changes nothing
  else: putting the old error back gives the state before the call, so the conversation
  (messages, loading flag, selected role) and the conversation identifier are untouched.
  This holds for the configuration error too; what keeps that one on display is the
  render alone, which hands \<open>ErrorMessage\<close> no retry action for it.
\<close>

theorem clear_error_frame:
  "error (clearError st) = None
   \<and> (clearError st)\<lparr>error := error st\<rparr> = st
   \<and> chatState (clearError st) = chatState st
   \<and> currentChatId (clearError st) = currentChatId st
   \<and> error (clearError (st\<lparr>error := Some apiKeyMessage\<rparr>)) = None
   \<and> errorMessage (st\<lparr>error := Some apiKeyMessage\<rparr>)
       = Some \<lparr>message = apiKeyMessage, onRetry = None\<rparr>"
  by (simp add: clearError_def errorMessage_apiKey)

end
